theory Spec2Isabelle
  imports Complex_Main
begin

section \<open>JavaScript values and objects\<close>

text \<open>
  The lead records of the pipeline are plain JavaScript objects: \<^verbatim>\<open>mergeLeads\<close> walks
  \<^verbatim>\<open>Object.keys\<close>, \<^verbatim>\<open>calculateQualityMetrics\<close> reads fields by their string names, and
  every stage rebuilds the record with a spread. A lead is therefore modelled as an
  object: an association list from property names to values, in insertion order.
  Numbers are exact rationals (the doubles of the source, without rounding error, NaN or
  infinities); strings are lists of 8-bit characters; a \<^verbatim>\<open>Date\<close> is its time value in
  milliseconds. Properties are assumed to hold values of their declared TypeScript types;
  where a reader below meets a value of another type it treats the property as absent.
\<close>

datatype jsval =
    JUndefined
  | JNull
  | JBool bool
  | JNum rat
  | JStr string
  | JArr "jsval list"
  | JObj "(string \<times> jsval) list"
  | JDate int

type_synonym obj = "(string \<times> jsval) list"

type_synonym EnhancedLead = obj

text \<open>\<^verbatim>\<open>o[k]\<close>: a missing property reads as \<^verbatim>\<open>undefined\<close>.\<close>

definition field :: "obj \<Rightarrow> string \<Rightarrow> jsval" where
  "field ob k = (case map_of ob k of Some v \<Rightarrow> v | None \<Rightarrow> JUndefined)"

text \<open>\<^verbatim>\<open>o[k] = v\<close>: an existing property keeps its place, a new one is appended.\<close>

fun assign :: "obj \<Rightarrow> string \<Rightarrow> jsval \<Rightarrow> obj" where
  "assign [] k v = [(k, v)]"
| "assign ((k', v') # ob) k v =
     (if k' = k then (k, v) # ob else (k', v') # assign ob k v)"

text \<open>\<^verbatim>\<open>{...a, ...b}\<close>: the properties of \<open>b\<close> are assigned onto a copy of \<open>a\<close>, in order.\<close>

definition spread :: "obj \<Rightarrow> obj \<Rightarrow> obj" where
  "spread a b = foldl (\<lambda>acc (k, v). assign acc k v) a b"

text \<open>\<^verbatim>\<open>...x\<close> inside an object literal, where \<open>x\<close> may be undefined: nothing is copied.\<close>

fun props :: "jsval \<Rightarrow> obj" where
  "props (JObj ob) = ob"
| "props _ = []"

text \<open>JavaScript truthiness (\<^verbatim>\<open>if (x)\<close>, \<^verbatim>\<open>x || d\<close>, \<^verbatim>\<open>x && y\<close>).\<close>

fun truthy :: "jsval \<Rightarrow> bool" where
  "truthy JUndefined = False"
| "truthy JNull = False"
| "truthy (JBool b) = b"
| "truthy (JNum n) = (n \<noteq> 0)"
| "truthy (JStr s) = (s \<noteq> [])"
| "truthy (JArr xs) = True"
| "truthy (JObj ob) = True"
| "truthy (JDate t) = True"

text \<open>\<^verbatim>\<open>x || d\<close> for a numeric property \<open>x\<close>.\<close>

fun num_or :: "jsval \<Rightarrow> rat \<Rightarrow> rat" where
  "num_or (JNum n) d = (if n = 0 then d else n)"
| "num_or _ d = d"

text \<open>A string property that is truthy: present and not the empty string.\<close>

fun str_of :: "jsval \<Rightarrow> string option" where
  "str_of (JStr s) = (if s = [] then None else Some s)"
| "str_of _ = None"

text \<open>\<^verbatim>\<open>x || []\<close> for an array property \<open>x\<close>.\<close>

fun arr_or_empty :: "jsval \<Rightarrow> jsval list" where
  "arr_or_empty (JArr xs) = xs"
| "arr_or_empty _ = []"

text \<open>\<^verbatim>\<open>Math.round\<close>: to the nearest integer, halves towards \<open>+\<infinity>\<close>.\<close>

definition js_round :: "rat \<Rightarrow> int" where
  "js_round x = \<lfloor>x + 1 / 2\<rfloor>"


text \<open>
  \<^verbatim>\<open>xs.sort(cmp)\<close>. ECMAScript fixes the result (the stable ordering by \<open>cmp\<close>) when
  \<open>cmp\<close> is a consistent comparator on the elements and leaves it to the implementation
  otherwise. The model is a stable insertion sort: each element, in turn, goes before the
  first already placed element that it strictly precedes.
\<close>

fun insert_by :: "('a \<Rightarrow> 'a \<Rightarrow> rat) \<Rightarrow> 'a \<Rightarrow> 'a list \<Rightarrow> 'a list" where
  "insert_by cmp x [] = [x]"
| "insert_by cmp x (y # ys) =
     (if cmp x y < 0 then x # y # ys else y # insert_by cmp x ys)"

definition js_sort :: "('a \<Rightarrow> 'a \<Rightarrow> rat) \<Rightarrow> 'a list \<Rightarrow> 'a list" where
  "js_sort cmp xs = foldl (\<lambda>acc x. insert_by cmp x acc) [] xs"

text \<open>The settled state of a promise, as \<^verbatim>\<open>Promise.allSettled\<close> and \<^verbatim>\<open>try/catch\<close> see it.\<close>

datatype 'a settled = Fulfilled 'a | Rejected string

section \<open>The pipeline coordinator (advanced-lead-research.ts)\<close>

record SourceConfig =
  enabled :: bool
  priority :: nat
  maxResults :: nat

record Sources =
  linkedin :: SourceConfig
  apollo :: SourceConfig
  zoominfo :: SourceConfig
  webScraping :: SourceConfig

record ResearchConfig =
  maxLeadsPerCampaign :: int
  minQualityScore :: rat
  maxConcurrentRequests :: nat
  requestDelayMs :: nat
  sources :: Sources



text \<open>\<^verbatim>\<open>x || d\<close> for an optional number parameter.\<close>

fun opt_or :: "'a::zero option \<Rightarrow> 'a \<Rightarrow> 'a" where
  "opt_or None d = d"
| "opt_or (Some n) d = (if n = 0 then d else n)"

subsection \<open>Discovery\<close>

text \<open>
  The settled results of the three source adapters' searches are the inputs: each search
  runs inside \<^verbatim>\<open>rateLimiter.schedule\<close>, and \<^verbatim>\<open>Promise.allSettled\<close> waits for all of
  them without rejecting. A fulfilled search carries an array, which is truthy.
  The returned promise is modelled as a sum: \<open>Inl\<close> would be its rejection.
\<close>

record SourceResults =
  linkedinResult :: "EnhancedLead list settled"
  apolloResult :: "EnhancedLead list settled"
  zoominfoResult :: "EnhancedLead list settled"

fun collect :: "EnhancedLead list \<Rightarrow> EnhancedLead list settled list \<Rightarrow> EnhancedLead list" where
  "collect allLeads [] = allLeads"
| "collect allLeads (Fulfilled v # results) = collect (allLeads @ v) results"
| "collect allLeads (Rejected e # results) = collect allLeads results"

definition discoveryTasks :: "ResearchConfig \<Rightarrow> SourceResults \<Rightarrow> EnhancedLead list settled list" where
  "discoveryTasks cfg res =
     (if enabled (linkedin (sources cfg)) then [linkedinResult res] else []) @
     (if enabled (apollo (sources cfg)) then [apolloResult res] else []) @
     (if enabled (zoominfo (sources cfg)) then [zoominfoResult res] else [])"

definition discoverLeadsFromMultipleSources ::
    "ResearchConfig \<Rightarrow> SourceResults \<Rightarrow> string + EnhancedLead list" where
  "discoverLeadsFromMultipleSources cfg res = Inr (collect [] (discoveryTasks cfg res))"

subsection \<open>Scoring with the model's analysis, and its fallback\<close>





subsection \<open>Prioritization (LeadScoringService.prioritizeLeads) and the final filter\<close>






section \<open>Strings\<close>

text \<open>
  The string methods the services use, on 8-bit characters: \<^verbatim>\<open>toLowerCase\<close> maps the
  letters A to Z, and \<^verbatim>\<open>\s\<close> is the ASCII white space (tab, line feed, vertical tab,
  form feed, carriage return, space).
\<close>

definition is_space :: "char \<Rightarrow> bool" where
  "is_space c = (of_char c \<in> {9, 10, 11, 12, 13, 32 :: nat})"

definition is_digit :: "char \<Rightarrow> bool" where
  "is_digit c = (48 \<le> (of_char c :: nat) \<and> (of_char c :: nat) \<le> 57)"

definition is_lower :: "char \<Rightarrow> bool" where
  "is_lower c = (97 \<le> (of_char c :: nat) \<and> (of_char c :: nat) \<le> 122)"

definition is_upper :: "char \<Rightarrow> bool" where
  "is_upper c = (65 \<le> (of_char c :: nat) \<and> (of_char c :: nat) \<le> 90)"

text \<open>\<^verbatim>\<open>\w\<close>\<close>

definition is_word :: "char \<Rightarrow> bool" where
  "is_word c = (is_lower c \<or> is_upper c \<or> is_digit c \<or> c = CHR ''_'')"

definition lower_char :: "char \<Rightarrow> char" where
  "lower_char c =
     (case map_of (zip ''ABCDEFGHIJKLMNOPQRSTUVWXYZ'' ''abcdefghijklmnopqrstuvwxyz'') c of
        Some l \<Rightarrow> l
      | None \<Rightarrow> c)"

definition toLowerCase :: "string \<Rightarrow> string" where
  "toLowerCase s = map lower_char s"

definition trim :: "string \<Rightarrow> string" where
  "trim s = rev (dropWhile is_space (rev (dropWhile is_space s)))"

text \<open>\<^verbatim>\<open>s.startsWith(p)\<close>, \<^verbatim>\<open>s.endsWith(p)\<close> and \<^verbatim>\<open>s.includes(p)\<close>\<close>

definition startsWith :: "string \<Rightarrow> string \<Rightarrow> bool" where
  "startsWith s p = (take (length p) s = p)"

definition endsWith :: "string \<Rightarrow> string \<Rightarrow> bool" where
  "endsWith s p = (length p \<le> length s \<and> drop (length s - length p) s = p)"

fun js_includes :: "string \<Rightarrow> string \<Rightarrow> bool" where
  "js_includes [] p = (p = [])"
| "js_includes (c # cs) p = (startsWith (c # cs) p \<or> js_includes cs p)"

text \<open>\<^verbatim>\<open>s.replace(p, '')\<close> with a string pattern: the first occurrence is removed.\<close>

fun remove_first :: "string \<Rightarrow> string \<Rightarrow> string" where
  "remove_first [] p = []"
| "remove_first (c # cs) p =
     (if startsWith (c # cs) p then drop (length p) (c # cs) else c # remove_first cs p)"

section \<open>The platform\<close>

text \<open>
  What the services take from the runtime: \<open>hostname\<close> stands for
  \<^verbatim>\<open>new URL(url).hostname\<close>, \<open>None\<close> where the constructor throws; \<open>now\<close> is
  \<^verbatim>\<open>Date.now()\<close>, in milliseconds.
\<close>

record Platform =
  hostname :: "string \<Rightarrow> string option"
  now :: int

section \<open>Email verification (EmailVerificationService)\<close>

datatype VerificationStatus = Valid | Invalid | Risky | Unknown

text \<open>
  \<^verbatim>\<open>Partial<EmailVerificationResult>\<close>: what one verification layer reports. An MX
  record is its exchange and its priority.
\<close>

record PartialResult =
  p_isValid :: "bool option"
  p_deliverabilityScore :: "rat option"
  p_verificationStatus :: "VerificationStatus option"
  p_reason :: "string option"
  p_phoneNumber :: "string option"
  p_catchAll :: "bool option"
  p_disposable :: "bool option"
  p_role :: "bool option"
  p_free :: "bool option"
  p_mxRecords :: "(string \<times> nat) list option"

record EmailVerificationResult =
  email :: string
  isValid :: bool
  deliverabilityScore :: rat
  verificationStatus :: VerificationStatus
  reason :: string
  phoneNumber :: "string option"
  catchAll :: bool
  disposable :: bool
  role :: bool
  free :: bool
  mxRecords :: "(string \<times> nat) list option"

text \<open>
  \<^verbatim>\<open>layer?.deliverabilityScore || 0\<close>, for a layer that is \<^verbatim>\<open>null\<close> when its promise
  was rejected.
\<close>

definition layer_score :: "PartialResult option \<Rightarrow> rat" where
  "layer_score layer = (case layer of None \<Rightarrow> 0 | Some p \<Rightarrow> opt_or (p_deliverabilityScore p) 0)"

text \<open>\<^verbatim>\<open>layer?.f\<close>\<close>

definition opt_field :: "(PartialResult \<Rightarrow> 'a option) \<Rightarrow> PartialResult option \<Rightarrow> 'a option" where
  "opt_field f layer = (case layer of None \<Rightarrow> None | Some p \<Rightarrow> f p)"

text \<open>\<^verbatim>\<open>layer?.reason\<close> when it is truthy.\<close>

definition layer_reason :: "PartialResult option \<Rightarrow> string option" where
  "layer_reason layer =
     (case opt_field p_reason layer of None \<Rightarrow> None
      | Some r \<Rightarrow> if r = [] then None else Some r)"

text \<open>\<^verbatim>\<open>layer?.flag || false\<close>\<close>

definition layer_flag :: "(PartialResult \<Rightarrow> bool option) \<Rightarrow> PartialResult option \<Rightarrow> bool" where
  "layer_flag f layer = (case opt_field f layer of None \<Rightarrow> False | Some b \<Rightarrow> b)"

text \<open>The scores with their weights, without the layers whose score is not positive.\<close>

definition weighted_scores ::
    "PartialResult option \<Rightarrow> PartialResult option \<Rightarrow> PartialResult option \<Rightarrow>
     PartialResult option \<Rightarrow> (rat \<times> rat) list" where
  "weighted_scores basic dns external social =
     filter (\<lambda>(score, weight). score > 0)
       [(layer_score basic, 3 / 10),
        (layer_score dns, 3 / 10),
        (layer_score external, 3 / 10),
        (layer_score social, 1 / 10)]"

definition weightedScore ::
    "PartialResult option \<Rightarrow> PartialResult option \<Rightarrow> PartialResult option \<Rightarrow>
     PartialResult option \<Rightarrow> rat" where
  "weightedScore basic dns external social =
     (let scores = weighted_scores basic dns external social;
          totalWeight = foldl (\<lambda>sum (score, weight). sum + weight) 0 scores
      in if totalWeight > 0
         then foldl (\<lambda>sum (score, weight). sum + score * weight) 0 scores / totalWeight
         else 30)"

text \<open>\<^verbatim>\<open>external?.isValid ?? dns?.isValid ?? (basic?.deliverabilityScore || 0) > 60\<close>\<close>

definition overallValidity ::
    "PartialResult option \<Rightarrow> PartialResult option \<Rightarrow> PartialResult option \<Rightarrow> bool" where
  "overallValidity basic dns external =
     (case opt_field p_isValid external of Some b \<Rightarrow> b
      | None \<Rightarrow> (case opt_field p_isValid dns of Some b \<Rightarrow> b
                 | None \<Rightarrow> layer_score basic > 60))"

definition combinedStatus ::
    "PartialResult option \<Rightarrow> PartialResult option \<Rightarrow> PartialResult option \<Rightarrow>
     PartialResult option \<Rightarrow> VerificationStatus" where
  "combinedStatus basic dns external social =
     (let valid = overallValidity basic dns external;
          score = weightedScore basic dns external social
      in case opt_field p_verificationStatus external of
           Some Valid \<Rightarrow> Valid
         | Some Invalid \<Rightarrow> Invalid
         | Some Risky \<Rightarrow> Risky
         | _ \<Rightarrow> if valid \<and> score > 70 then Valid
                else if \<not> valid \<or> score < 30 then Invalid
                else Risky)"

definition combineVerificationResults ::
    "string \<Rightarrow> PartialResult option \<Rightarrow> PartialResult option \<Rightarrow> PartialResult option \<Rightarrow>
     PartialResult option \<Rightarrow> EmailVerificationResult" where
  "combineVerificationResults addr basic dns external social =
     \<lparr> email = addr,
       isValid = overallValidity basic dns external,
       deliverabilityScore = of_int (js_round (weightedScore basic dns external social)),
       verificationStatus = combinedStatus basic dns external social,
       reason =
         (case layer_reason external of Some r \<Rightarrow> r
          | None \<Rightarrow> (case layer_reason dns of Some r \<Rightarrow> r
            | None \<Rightarrow> (case layer_reason basic of Some r \<Rightarrow> r
              | None \<Rightarrow> ''Combined verification''))),
       phoneNumber = opt_field p_phoneNumber social,
       catchAll = layer_flag p_catchAll dns,
       disposable = layer_flag p_disposable basic,
       role = layer_flag p_role basic,
       free = layer_flag p_free basic,
       mxRecords = opt_field p_mxRecords dns \<rparr>"

text \<open>
  The four layers are asynchronous calls (a DNS lookup, the HTTP providers, a mock phone
  number drawn at random) gathered by \<^verbatim>\<open>Promise.allSettled\<close>: what each settles to for
  an address is an input, \<open>None\<close> for a rejected promise. The cross-reference layer reads
  the whole lead.
\<close>

record VerificationEnv =
  basicEmailValidation :: "string \<Rightarrow> PartialResult option"
  dnsVerification :: "string \<Rightarrow> PartialResult option"
  externalVerification :: "string \<Rightarrow> PartialResult option"
  socialVerification :: "EnhancedLead \<Rightarrow> PartialResult option"

text \<open>
  \<^verbatim>\<open>verifyContact\<close> for a lead with an address. The \<^verbatim>\<open>catch\<close> of the source (status
  unknown, score 30) has no branch here: \<^verbatim>\<open>Promise.allSettled\<close> does not reject and the
  combination does not throw.
\<close>

definition verifyAddress :: "VerificationEnv \<Rightarrow> EnhancedLead \<Rightarrow> string \<Rightarrow> EmailVerificationResult" where
  "verifyAddress env lead addr =
     combineVerificationResults addr
       (basicEmailValidation env addr)
       (dnsVerification env addr)
       (externalVerification env addr)
       (socialVerification env lead)"

definition extractDomain :: "Platform \<Rightarrow> string \<Rightarrow> string" where
  "extractDomain pf url =
     (case hostname pf url of Some h \<Rightarrow> remove_first h ''www.'' | None \<Rightarrow> [])"

text \<open>
  \<^verbatim>\<open>.replace(/(inc|corp|llc|ltd|company|co)$/, '')\<close>: the match that starts leftmost is
  the longest of the suffixes that occur.
\<close>

definition strip_company_suffix :: "string \<Rightarrow> string" where
  "strip_company_suffix s =
     (if endsWith s ''company'' then take (length s - 7) s
      else if endsWith s ''corp'' then take (length s - 4) s
      else if endsWith s ''inc'' \<or> endsWith s ''llc'' \<or> endsWith s ''ltd''
        then take (length s - 3) s
      else if endsWith s ''co'' then take (length s - 2) s
      else s)"

definition guessDomainFromCompany :: "Platform \<Rightarrow> string \<Rightarrow> jsval \<Rightarrow> string" where
  "guessDomainFromCompany pf companyName website =
     (case str_of website of
        Some w \<Rightarrow> extractDomain pf w
      | None \<Rightarrow>
          strip_company_suffix
            (filter (\<lambda>c. \<not> is_space c)
               (filter (\<lambda>c. is_lower c \<or> is_digit c \<or> is_space c) (toLowerCase companyName)))
          @ ''.com'')"

definition emailPatterns :: "string \<Rightarrow> string \<Rightarrow> string \<Rightarrow> string list" where
  "emailPatterns firstName lastName domain =
     [firstName @ ''.'' @ lastName @ ''@'' @ domain,
      firstName @ ''@'' @ domain,
      take 1 firstName @ lastName @ ''@'' @ domain,
      firstName @ ''.'' @ take 1 lastName @ ''@'' @ domain,
      firstName @ lastName @ ''@'' @ domain,
      lastName @ ''.'' @ firstName @ ''@'' @ domain,
      firstName @ ''_'' @ lastName @ ''@'' @ domain]"

text \<open>
  Each pattern is verified as the lead \<^verbatim>\<open>{ email }\<close>, which has an address, so the
  recursive call of \<^verbatim>\<open>verifyContact\<close> takes the branch above.
\<close>

definition generatePotentialEmails ::
    "Platform \<Rightarrow> VerificationEnv \<Rightarrow> EnhancedLead \<Rightarrow> EmailVerificationResult list" where
  "generatePotentialEmails pf env lead =
     (case (str_of (field lead ''firstName''), str_of (field lead ''lastName''),
            str_of (field lead ''companyName'')) of
        (Some fname, Some lname, Some company) \<Rightarrow>
          (let firstName = toLowerCase fname;
               lastName = toLowerCase lname;
               domain = guessDomainFromCompany pf company (field lead ''website'')
           in if domain = [] then []
              else filter isValid
                     (map (\<lambda>addr. verifyAddress env [(''email'', JStr addr)] addr)
                        (emailPatterns firstName lastName domain)))
      | _ \<Rightarrow> [])"

definition findBestEmail :: "EmailVerificationResult list \<Rightarrow> EmailVerificationResult option" where
  "findBestEmail candidates =
     (case js_sort (\<lambda>a b. deliverabilityScore b - deliverabilityScore a) candidates of
        [] \<Rightarrow> None
      | best # rest \<Rightarrow> Some best)"

definition noEmailFound :: EmailVerificationResult where
  "noEmailFound =
     \<lparr> email = [],
       isValid = False,
       deliverabilityScore = 0,
       verificationStatus = Invalid,
       reason = ''No email found'',
       phoneNumber = None,
       catchAll = False,
       disposable = False,
       role = False,
       free = False,
       mxRecords = None \<rparr>"

text \<open>
  \<^verbatim>\<open>verifyContact\<close> returns the result; it also writes a generated address into the lead
  it was given, so the lead is returned with it.
\<close>

definition verifyContact ::
    "Platform \<Rightarrow> VerificationEnv \<Rightarrow> EnhancedLead \<Rightarrow> EmailVerificationResult \<times> EnhancedLead" where
  "verifyContact pf env lead =
     (case str_of (field lead ''email'') of
        None \<Rightarrow>
          (case findBestEmail (generatePotentialEmails pf env lead) of
             Some bestEmail \<Rightarrow> (bestEmail, assign lead ''email'' (JStr (email bestEmail)))
           | None \<Rightarrow> (noEmailFound, lead))
      | Some addr \<Rightarrow> (verifyAddress env lead addr, lead))"

text \<open>\<^verbatim>\<open>verifyContactInformation\<close> of the coordinator: one task per lead, none dropped.\<close>

definition verificationTask :: "Platform \<Rightarrow> VerificationEnv \<Rightarrow> EnhancedLead \<Rightarrow> EnhancedLead" where
  "verificationTask pf env lead =
     (let (verification, lead') = verifyContact pf env lead
      in assign (assign (assign lead'
           ''emailVerified'' (JBool (isValid verification)))
           ''emailDeliverabilityScore'' (JNum (deliverabilityScore verification)))
           ''phoneNumber''
             (case phoneNumber verification of Some p \<Rightarrow> JStr p | None \<Rightarrow> JUndefined))"

definition verifyContactInformation ::
    "Platform \<Rightarrow> VerificationEnv \<Rightarrow> EnhancedLead list \<Rightarrow> EnhancedLead list" where
  "verifyContactInformation pf env leads = map (verificationTask pf env) leads"

text \<open>
  The \<^verbatim>\<open>emailVerification\<close> entry of \<^verbatim>\<open>LeadScoringService.calculateScoringFactors\<close>:
  \<^verbatim>\<open>lead.emailDeliverabilityScore || 60\<close>.
\<close>

definition emailVerificationFactor :: "EnhancedLead \<Rightarrow> rat" where
  "emailVerificationFactor lead = num_or (field lead ''emailDeliverabilityScore'') 60"

text \<open>The object literal \<^verbatim>\<open>{}\<close> as a partial result: no field is set.\<close>

definition emptyPartial :: PartialResult where
  "emptyPartial =
     \<lparr> p_isValid = None, p_deliverabilityScore = None, p_verificationStatus = None,
       p_reason = None, p_phoneNumber = None, p_catchAll = None, p_disposable = None,
       p_role = None, p_free = None, p_mxRecords = None \<rparr>"

text \<open>
  The layers as they settle for an address whose domain does not resolve, with no provider
  key configured: the format check passes (score 80), the DNS lookup fails (not valid,
  score 20, status unknown), no external provider answers (status unknown), and the
  cross-reference layer has nothing to add to its base score 50. No URL parses.
\<close>

definition unresolvable_env :: VerificationEnv where
  "unresolvable_env =
     \<lparr> basicEmailValidation = (\<lambda>addr. Some (emptyPartial
         \<lparr> p_deliverabilityScore := Some 80, p_reason := Some ''Valid format'',
           p_disposable := Some False, p_role := Some False, p_free := Some True \<rparr>)),
       dnsVerification = (\<lambda>addr. Some (emptyPartial
         \<lparr> p_isValid := Some False, p_deliverabilityScore := Some 20,
           p_verificationStatus := Some Unknown,
           p_reason := Some ''DNS verification failed'' \<rparr>)),
       externalVerification = (\<lambda>addr. Some (emptyPartial
         \<lparr> p_verificationStatus := Some Unknown,
           p_reason := Some ''External verification unavailable'' \<rparr>)),
       socialVerification = (\<lambda>lead. Some (emptyPartial
         \<lparr> p_deliverabilityScore := Some 50,
           p_reason := Some ''Social profile correlation'' \<rparr>)) \<rparr>"

definition no_url_platform :: Platform where
  "no_url_platform = \<lparr> hostname = (\<lambda>url. None), now = 0 \<rparr>"

section \<open>Regular expressions\<close>

text \<open>
  The patterns of the services use character classes, sequence, alternatives and
  repetition only, and are tested anchored at both ends (\<^verbatim>\<open>^...$\<close>), so
  \<^verbatim>\<open>regex.test(s)\<close> is membership in a regular language. It is decided with
  derivatives.
\<close>

datatype regex =
    Rnone
  | Reps
  | Rcls "char \<Rightarrow> bool"
  | Rseq regex regex
  | Ralt regex regex
  | Rstar regex

fun nullable :: "regex \<Rightarrow> bool" where
  "nullable Rnone = False"
| "nullable Reps = True"
| "nullable (Rcls p) = False"
| "nullable (Rseq r s) = (nullable r \<and> nullable s)"
| "nullable (Ralt r s) = (nullable r \<or> nullable s)"
| "nullable (Rstar r) = True"

fun deriv :: "char \<Rightarrow> regex \<Rightarrow> regex" where
  "deriv c Rnone = Rnone"
| "deriv c Reps = Rnone"
| "deriv c (Rcls p) = (if p c then Reps else Rnone)"
| "deriv c (Rseq r s) =
     (if nullable r then Ralt (Rseq (deriv c r) s) (deriv c s) else Rseq (deriv c r) s)"
| "deriv c (Ralt r s) = Ralt (deriv c r) (deriv c s)"
| "deriv c (Rstar r) = Rseq (deriv c r) (Rstar r)"

definition regex_test :: "regex \<Rightarrow> string \<Rightarrow> bool" where
  "regex_test r s = nullable (foldl (\<lambda>r c. deriv c r) r s)"

definition Rchar :: "char \<Rightarrow> regex" where
  "Rchar c = Rcls (\<lambda>x. x = c)"

definition Rstr :: "string \<Rightarrow> regex" where
  "Rstr s = foldr (\<lambda>c r. Rseq (Rchar c) r) s Reps"

definition Rplus :: "regex \<Rightarrow> regex" where
  "Rplus r = Rseq r (Rstar r)"

definition Ropt :: "regex \<Rightarrow> regex" where
  "Ropt r = Ralt r Reps"

text \<open>\<^verbatim>\<open>r{n}\<close> and \<^verbatim>\<open>r{0,n}\<close>; \<^verbatim>\<open>r{n,m}\<close> is \<^verbatim>\<open>r{n}\<close> followed by \<^verbatim>\<open>r{0,m-n}\<close>.\<close>

primrec Rtimes :: "nat \<Rightarrow> regex \<Rightarrow> regex" where
  "Rtimes 0 r = Reps"
| "Rtimes (Suc n) r = Rseq r (Rtimes n r)"

primrec Rupto :: "nat \<Rightarrow> regex \<Rightarrow> regex" where
  "Rupto 0 r = Reps"
| "Rupto (Suc n) r = Ropt (Rseq r (Rupto n r))"

text \<open>\<^verbatim>\<open>/^[^\s@]+@[^\s@]+\.[^\s@]+$/\<close>\<close>

definition emailRegex :: regex where
  "emailRegex =
     Rseq (Rplus (Rcls (\<lambda>c. \<not> is_space c \<and> c \<noteq> CHR ''@'')))
    (Rseq (Rchar CHR ''@'')
    (Rseq (Rplus (Rcls (\<lambda>c. \<not> is_space c \<and> c \<noteq> CHR ''@'')))
    (Rseq (Rchar CHR ''.'')
          (Rplus (Rcls (\<lambda>c. \<not> is_space c \<and> c \<noteq> CHR ''@''))))))"

text \<open>\<^verbatim>\<open>/^https:\/\/(www\.)?linkedin\.com\/in\/[\w\-_]+\/?$/\<close>\<close>

definition linkedinRegex :: regex where
  "linkedinRegex =
     Rseq (Rstr ''https://'')
    (Rseq (Ropt (Rstr ''www.''))
    (Rseq (Rstr ''linkedin.com/in/'')
    (Rseq (Rplus (Rcls (\<lambda>c. is_word c \<or> c = CHR ''-'' \<or> c = CHR ''_'')))
          (Ropt (Rchar CHR ''/'')))))"

text \<open>\<^verbatim>\<open>/^[\+]?[1-9]?[\d\s\-\(\)\.]{7,15}$/\<close>\<close>

definition phone_class :: "char \<Rightarrow> bool" where
  "phone_class c = (is_digit c \<or> is_space c \<or> c \<in> set ''-().'')"

definition phoneRegex :: regex where
  "phoneRegex =
     Rseq (Ropt (Rchar CHR ''+''))
    (Rseq (Ropt (Rcls (\<lambda>c. is_digit c \<and> c \<noteq> CHR ''0'')))
    (Rseq (Rtimes 7 (Rcls phone_class))
          (Rupto 8 (Rcls phone_class))))"

section \<open>Data quality (DataQualityService)\<close>

record DataQualityMetrics =
  completeness :: rat
  accuracy :: rat
  freshness :: rat
  consistency :: rat
  reliability :: rat
  overallQuality :: rat
  issues :: "string list"
  recommendations :: "string list"

fun isFieldComplete :: "jsval \<Rightarrow> bool" where
  "isFieldComplete JUndefined = False"
| "isFieldComplete JNull = False"
| "isFieldComplete (JStr s) = (trim s \<noteq> [])"
| "isFieldComplete (JArr xs) = (xs \<noteq> [])"
| "isFieldComplete (JBool b) = True"
| "isFieldComplete (JNum n) = True"
| "isFieldComplete (JObj ob) = True"
| "isFieldComplete (JDate t) = True"

subsection \<open>Accuracy\<close>

definition fakeCompanyPatterns :: "string list" where
  "fakeCompanyPatterns = [''test'', ''example'', ''sample'', ''fake'']"

text \<open>
  \<^verbatim>\<open>new URL(lead.website)\<close> inside \<^verbatim>\<open>try\<close>: the website counts as valid when the
  constructor does not throw.
\<close>

definition assessDataAccuracy :: "Platform \<Rightarrow> EnhancedLead \<Rightarrow> rat" where
  "assessDataAccuracy pf lead =
     (let accuracy = 80;
          accuracy =
            (case str_of (field lead ''email'') of
               Some e \<Rightarrow> if \<not> regex_test emailRegex e then accuracy - 20 else accuracy
             | None \<Rightarrow> accuracy);
          accuracy =
            (case str_of (field lead ''linkedinUrl'') of
               Some u \<Rightarrow> if \<not> regex_test linkedinRegex u then accuracy - 10 else accuracy
             | None \<Rightarrow> accuracy);
          accuracy =
            (case str_of (field lead ''website'') of
               Some w \<Rightarrow> (case hostname pf w of Some h \<Rightarrow> accuracy | None \<Rightarrow> accuracy - 10)
             | None \<Rightarrow> accuracy);
          accuracy =
            (case str_of (field lead ''firstName'') of
               Some n \<Rightarrow> if length n < 2 then accuracy - 15 else accuracy
             | None \<Rightarrow> accuracy);
          accuracy =
            (case str_of (field lead ''lastName'') of
               Some n \<Rightarrow> if length n < 2 then accuracy - 15 else accuracy
             | None \<Rightarrow> accuracy);
          accuracy =
            (case str_of (field lead ''companyName'') of
               Some c \<Rightarrow>
                 if list_ex (\<lambda>pattern. js_includes (toLowerCase c) pattern) fakeCompanyPatterns
                 then accuracy - 30 else accuracy
             | None \<Rightarrow> accuracy);
          accuracy =
            (case str_of (field lead ''phoneNumber'') of
               Some p \<Rightarrow> if \<not> regex_test phoneRegex p then accuracy - 10 else accuracy
             | None \<Rightarrow> accuracy)
      in max 0 (min 100 accuracy))"

subsection \<open>The accuracy score as the specification words it\<close>

text \<open>
  The reference definition of claim C4: 80, less one penalty per failed check, clamped to
  0..100. A field is present when it is a non-empty string.
\<close>

definition penalty_email :: "EnhancedLead \<Rightarrow> rat" where
  "penalty_email lead =
     (case str_of (field lead ''email'') of
        Some e \<Rightarrow> if regex_test emailRegex e then 0 else 20
      | None \<Rightarrow> 0)"

definition penalty_profile_url :: "EnhancedLead \<Rightarrow> rat" where
  "penalty_profile_url lead =
     (case str_of (field lead ''linkedinUrl'') of
        Some u \<Rightarrow> if regex_test linkedinRegex u then 0 else 10
      | None \<Rightarrow> 0)"

definition penalty_website :: "Platform \<Rightarrow> EnhancedLead \<Rightarrow> rat" where
  "penalty_website pf lead =
     (case str_of (field lead ''website'') of
        Some w \<Rightarrow> if hostname pf w = None then 10 else 0
      | None \<Rightarrow> 0)"

definition penalty_short_name :: "EnhancedLead \<Rightarrow> string \<Rightarrow> rat" where
  "penalty_short_name lead k =
     (case str_of (field lead k) of
        Some n \<Rightarrow> if length n < 2 then 15 else 0
      | None \<Rightarrow> 0)"

definition has_placeholder_token :: "string \<Rightarrow> bool" where
  "has_placeholder_token company =
     (js_includes (toLowerCase company) ''test'' \<or> js_includes (toLowerCase company) ''example''
      \<or> js_includes (toLowerCase company) ''sample'' \<or> js_includes (toLowerCase company) ''fake'')"

definition penalty_placeholder :: "EnhancedLead \<Rightarrow> rat" where
  "penalty_placeholder lead =
     (case str_of (field lead ''companyName'') of
        Some c \<Rightarrow> if has_placeholder_token c then 30 else 0
      | None \<Rightarrow> 0)"

definition penalty_phone :: "EnhancedLead \<Rightarrow> rat" where
  "penalty_phone lead =
     (case str_of (field lead ''phoneNumber'') of
        Some p \<Rightarrow> if regex_test phoneRegex p then 0 else 10
      | None \<Rightarrow> 0)"

definition accuracy_reference :: "Platform \<Rightarrow> EnhancedLead \<Rightarrow> rat" where
  "accuracy_reference pf lead =
     max 0 (min 100
       (80 - penalty_email lead - penalty_profile_url lead - penalty_website pf lead
           - penalty_short_name lead ''firstName'' - penalty_short_name lead ''lastName''
           - penalty_placeholder lead - penalty_phone lead))"

subsection \<open>Freshness\<close>

definition calculateFreshness :: "Platform \<Rightarrow> EnhancedLead \<Rightarrow> rat" where
  "calculateFreshness pf lead =
     (let lastUpdated = (case field lead ''lastUpdated'' of JDate t \<Rightarrow> t | _ \<Rightarrow> now pf);
          daysSinceUpdate = of_int (now pf - lastUpdated) / (1000 * 60 * 60 * 24) :: rat
      in if daysSinceUpdate \<le> 1 then 100
         else if daysSinceUpdate \<le> 7 then 90
         else if daysSinceUpdate \<le> 30 then 75
         else if daysSinceUpdate \<le> 90 then 60
         else if daysSinceUpdate \<le> 180 then 40
         else 20)"

subsection \<open>String similarity\<close>

text \<open>
  \<^verbatim>\<open>levenshteinDistance\<close> fills a matrix row by row; each cell is written once, from the
  cells above and to the left. \<open>matrix_cell str1 str2 i j\<close> is the value of
  \<^verbatim>\<open>matrix[i][j]\<close>.
\<close>

fun matrix_cell :: "string \<Rightarrow> string \<Rightarrow> nat \<Rightarrow> nat \<Rightarrow> nat" where
  "matrix_cell str1 str2 0 j = j"
| "matrix_cell str1 str2 (Suc i) 0 = Suc i"
| "matrix_cell str1 str2 (Suc i) (Suc j) =
     (if str2 ! i = str1 ! j then matrix_cell str1 str2 i j
      else min (matrix_cell str1 str2 i j + 1)
             (min (matrix_cell str1 str2 (Suc i) j + 1)
                  (matrix_cell str1 str2 i (Suc j) + 1)))"

definition levenshteinDistance :: "string \<Rightarrow> string \<Rightarrow> nat" where
  "levenshteinDistance str1 str2 = matrix_cell str1 str2 (length str2) (length str1)"

definition calculateStringSimilarity :: "string \<Rightarrow> string \<Rightarrow> rat" where
  "calculateStringSimilarity str1 str2 =
     (let longer = (if length str1 > length str2 then str1 else str2);
          shorter = (if length str1 > length str2 then str2 else str1)
      in if length longer = 0 then 1
         else (of_nat (length longer) - of_nat (levenshteinDistance longer shorter))
              / of_nat (length longer))"

definition namesAreSimilar :: "string \<Rightarrow> string \<Rightarrow> bool" where
  "namesAreSimilar name1 name2 = (calculateStringSimilarity name1 name2 > 6 / 10)"

subsection \<open>Consistency\<close>

text \<open>\<^verbatim>\<open>s.split(c)\<close> for a one-character separator: never empty.\<close>

fun split_on :: "char \<Rightarrow> string \<Rightarrow> string list" where
  "split_on c [] = [[]]"
| "split_on c (x # xs) =
     (if x = c then [] # split_on c xs
      else (case split_on c xs of
              p # ps \<Rightarrow> (x # p) # ps
            | [] \<Rightarrow> [[x]]))"

text \<open>\<^verbatim>\<open>xs[i]\<close> for an integer index: \<^verbatim>\<open>undefined\<close> out of range.\<close>

definition at_index :: "'a list \<Rightarrow> int \<Rightarrow> 'a option" where
  "at_index xs i = (if 0 \<le> i \<and> i < int (length xs) then Some (xs ! nat i) else None)"

text \<open>
  The email service and the quality service each have their own copy of
  \<^verbatim>\<open>areRelatedDomains\<close>, with the same body: the labels before the last are compared,
  and two domains without such a label are related.
\<close>

definition areRelatedDomains :: "string \<Rightarrow> string \<Rightarrow> bool" where
  "areRelatedDomains domain1 domain2 =
     (let parts1 = split_on CHR ''.'' domain1;
          parts2 = split_on CHR ''.'' domain2;
          root1 = at_index parts1 (int (length parts1) - 2);
          root2 = at_index parts2 (int (length parts2) - 2)
      in root1 = root2)"

text \<open>
  \<^verbatim>\<open>url.match(/linkedin\.com\/in\/([\w\-_]+)/)\<close>: the leftmost place where the literal is
  followed by a character of the class; the group takes the longest run.
\<close>

fun linkedin_slug :: "string \<Rightarrow> string option" where
  "linkedin_slug [] = None"
| "linkedin_slug (c # cs) =
     (let run = takeWhile (\<lambda>c. is_word c \<or> c = CHR ''-'' \<or> c = CHR ''_'')
                  (drop (length ''linkedin.com/in/'') (c # cs))
      in if startsWith (c # cs) ''linkedin.com/in/'' \<and> run \<noteq> [] then Some run
         else linkedin_slug cs)"

definition extractNameFromLinkedInUrl :: "string \<Rightarrow> string" where
  "extractNameFromLinkedInUrl url =
     (case linkedin_slug url of
        Some m \<Rightarrow> toLowerCase (map (\<lambda>c. if c = CHR ''-'' \<or> c = CHR ''_'' then CHR '' '' else c) m)
      | None \<Rightarrow> [])"

definition seniorityKeywords :: "(string \<times> string list) list" where
  "seniorityKeywords =
     [(''junior'', [''junior'', ''associate'', ''coordinator'', ''assistant'']),
      (''mid'', [''manager'', ''specialist'', ''lead'']),
      (''senior'', [''senior'', ''director'', ''head'']),
      (''executive'', [''vp'', ''vice president'', ''executive'']),
      (''c-level'', [''ceo'', ''cto'', ''cmo'', ''cfo'', ''chief''])]"

definition roleMatchesSeniority :: "string \<Rightarrow> string \<Rightarrow> bool" where
  "roleMatchesSeniority role_title seniority =
     (let keywords = (case map_of seniorityKeywords seniority of Some ks \<Rightarrow> ks | None \<Rightarrow> []);
          roleLower = toLowerCase role_title
      in list_ex (\<lambda>keyword. js_includes roleLower keyword) keywords)"

text \<open>
  A name in a template literal: \<^verbatim>\<open>undefined\<close> and \<^verbatim>\<open>null\<close> print as words. Values of
  other types than string do not occur in name fields and print as nothing here.
\<close>

fun template :: "jsval \<Rightarrow> string" where
  "template (JStr s) = s"
| "template JUndefined = ''undefined''"
| "template JNull = ''null''"
| "template _ = []"

text \<open>
  \<^verbatim>\<open>calculateConsistency\<close>. An address without \<^verbatim>\<open>@\<close> has no second part:
  \<^verbatim>\<open>emailDomain\<close> is \<^verbatim>\<open>undefined\<close>, differs from the website's domain, and
  \<^verbatim>\<open>areRelatedDomains\<close> throws a TypeError on it, which nothing catches (\<open>Inl\<close>).
\<close>

definition calculateConsistency :: "Platform \<Rightarrow> EnhancedLead \<Rightarrow> string + rat" where
  "calculateConsistency pf lead =
     (let consistency = 100;
          domains =
            (case (str_of (field lead ''email''), str_of (field lead ''website'')) of
               (Some e, Some w) \<Rightarrow>
                 (case at_index (split_on CHR ''@'' e) 1 of
                    None \<Rightarrow> Inl ''TypeError''
                  | Some emailDomain \<Rightarrow>
                      (let websiteDomain = extractDomain pf w
                       in if emailDomain \<noteq> websiteDomain
                             \<and> \<not> areRelatedDomains emailDomain websiteDomain
                          then Inr (consistency - 15) else Inr consistency))
             | _ \<Rightarrow> Inr consistency)
      in case domains of
           Inl err \<Rightarrow> Inl err
         | Inr consistency \<Rightarrow>
            (let consistency =
                   (case str_of (field lead ''linkedinUrl'') of
                      Some u \<Rightarrow>
                        if truthy (field lead ''firstName'') \<or> truthy (field lead ''lastName'')
                        then
                          (let nameInUrl = extractNameFromLinkedInUrl u;
                               fullName = toLowerCase (template (field lead ''firstName'')
                                            @ '' '' @ template (field lead ''lastName''))
                           in if nameInUrl \<noteq> [] \<and> \<not> namesAreSimilar nameInUrl fullName
                              then consistency - 20 else consistency)
                        else consistency
                    | None \<Rightarrow> consistency);
                 consistency =
                   (case (str_of (field lead ''role''), str_of (field lead ''seniority'')) of
                      (Some r, Some s) \<Rightarrow>
                        if \<not> roleMatchesSeniority r s then consistency - 10 else consistency
                    | _ \<Rightarrow> consistency)
             in Inr (max 0 consistency)))"

subsection \<open>Reliability\<close>

definition sourceReliability :: "(string \<times> rat) list" where
  "sourceReliability =
     [(''linkedin'', 95), (''apollo'', 90), (''zoominfo'', 95), (''hunter'', 85),
      (''clearbit'', 90), (''manual'', 70), (''web_scraping'', 60), (''unknown'', 30)]"

text \<open>\<^verbatim>\<open>sourceReliability[source] || 50\<close>\<close>

definition source_weight :: "jsval \<Rightarrow> rat" where
  "source_weight source =
     (case source of
        JStr s \<Rightarrow> (case map_of sourceReliability s of Some w \<Rightarrow> w | None \<Rightarrow> 50)
      | _ \<Rightarrow> 50)"

definition calculateReliability :: "jsval list \<Rightarrow> rat" where
  "calculateReliability srcs =
     (if length srcs = 0 then 50
      else
        (let avgReliability =
               foldl (\<lambda>sum source. sum + source_weight source) 0 srcs / of_nat (length srcs);
             multiSourceBonus = min (of_nat (length srcs) * 5) 15
         in min 100 (of_int (js_round (avgReliability + multiSourceBonus)))))"

subsection \<open>Issues and recommendations\<close>

definition identifyDataIssues ::
    "EnhancedLead \<Rightarrow> rat \<Rightarrow> rat \<Rightarrow> rat \<Rightarrow> rat \<Rightarrow> rat \<Rightarrow> string list" where
  "identifyDataIssues lead completeness' accuracy' freshness' consistency' reliability' =
     (if completeness' < 70 then [''Incomplete lead profile - missing key information''] else [])
     @ (if accuracy' < 80 then [''Data accuracy concerns - validation failures detected''] else [])
     @ (if freshness' < 60 then [''Stale data - information may be outdated''] else [])
     @ (if consistency' < 80
        then [''Data inconsistency - conflicting information across fields''] else [])
     @ (if reliability' < 70
        then [''Low source reliability - data from questionable sources''] else [])
     @ (if \<not> truthy (field lead ''email'')
        then [''Missing email address - cannot be contacted'']
        else if \<not> truthy (field lead ''emailVerified'')
        then [''Unverified email - deliverability uncertain''] else [])
     @ (if \<not> truthy (field lead ''role'') then [''Missing job title - role unclear''] else [])
     @ (if \<not> truthy (field lead ''companyName'') then [''Missing company information''] else [])"

definition generateQualityRecommendations :: "string list \<Rightarrow> string list" where
  "generateQualityRecommendations found =
     (if list_ex (\<lambda>issue. js_includes issue ''Incomplete'') found
      then [''Enrich lead data from additional sources''] else [])
     @ (if list_ex (\<lambda>issue. js_includes issue ''accuracy'') found
        then [''Validate and clean data fields''] else [])
     @ (if list_ex (\<lambda>issue. js_includes issue ''Stale'') found
        then [''Update lead information from current sources''] else [])
     @ (if list_ex (\<lambda>issue. js_includes issue ''inconsistency'') found
        then [''Reconcile conflicting data points''] else [])
     @ (if list_ex (\<lambda>issue. js_includes issue ''Unverified email'') found
        then [''Verify email address before outreach''] else [])
     @ (if list_ex (\<lambda>issue. js_includes issue ''Missing email'') found
        then [''Find and verify email address''] else [])"

subsection \<open>The quality metrics\<close>

definition requiredFields :: "string list" where
  "requiredFields = [''firstName'', ''lastName'', ''email'', ''role'', ''companyName'']"

definition optionalFields :: "string list" where
  "optionalFields =
     [''linkedinUrl'', ''website'', ''phoneNumber'', ''companySize'',
      ''aboutSummary'', ''department'', ''seniority'']"

definition calculateQualityMetrics :: "Platform \<Rightarrow> EnhancedLead \<Rightarrow> string + DataQualityMetrics" where
  "calculateQualityMetrics pf lead =
     (let completedRequired =
            length (filter (\<lambda>f. isFieldComplete (field lead f)) requiredFields);
          completedOptional =
            length (filter (\<lambda>f. isFieldComplete (field lead f)) optionalFields);
          completeness =
            of_int (js_round
              (of_nat completedRequired / of_nat (length requiredFields) * 70
               + of_nat completedOptional / of_nat (length optionalFields) * 30));
          accuracy = assessDataAccuracy pf lead;
          freshness =
            (case field lead ''dataFreshnessScore'' of
               JNum n \<Rightarrow> if n = 0 then calculateFreshness pf lead else n
             | _ \<Rightarrow> calculateFreshness pf lead)
      in case calculateConsistency pf lead of
           Inl err \<Rightarrow> Inl err
         | Inr consistent \<Rightarrow>
            (let consistency = consistent;
                 reliability = calculateReliability (arr_or_empty (field lead ''sources''));
                 overallQuality =
                   of_int (js_round
                     (completeness * (3 / 10) + accuracy * (25 / 100) + freshness * (2 / 10)
                      + consistency * (15 / 100) + reliability * (1 / 10)));
                 issues = identifyDataIssues lead completeness accuracy freshness
                            consistency reliability;
                 recommendations = generateQualityRecommendations issues
             in Inr \<lparr> completeness = completeness,
                      accuracy = accuracy,
                      freshness = freshness,
                      consistency = consistency,
                      reliability = reliability,
                      overallQuality = overallQuality,
                      issues = issues,
                      recommendations = recommendations \<rparr>))"

subsection \<open>Duplicates\<close>



definition generateLeadId :: "EnhancedLead \<Rightarrow> string" where
  "generateLeadId lead =
     template (field lead ''firstName'') @ ''_'' @ template (field lead ''lastName'') @ ''_''
     @ (case str_of (field lead ''email'') of
          Some e \<Rightarrow> e
        | None \<Rightarrow> (case str_of (field lead ''linkedinUrl'') of
                     Some u \<Rightarrow> u
                   | None \<Rightarrow> ''unknown''))"








text \<open>
  \<^verbatim>\<open>[...new Set(xs)]\<close>: the first occurrence of each element, in order.
\<close>

definition unique :: "'a list \<Rightarrow> 'a list" where
  "unique xs = foldl (\<lambda>acc x. if x \<in> set acc then acc else acc @ [x]) [] xs"




subsection \<open>Merging\<close>

text \<open>
  The loop over \<^verbatim>\<open>Object.keys(duplicate)\<close>: a property that is not complete in
  \<open>existing\<close> and complete in \<open>duplicate\<close> is taken from \<open>duplicate\<close>.
\<close>

definition fill_missing :: "EnhancedLead \<Rightarrow> EnhancedLead \<Rightarrow> EnhancedLead" where
  "fill_missing existing duplicate =
     foldl (\<lambda>merged key.
              if \<not> isFieldComplete (field existing key) \<and> isFieldComplete (field duplicate key)
              then assign merged key (field duplicate key) else merged)
       existing (map fst duplicate)"

text \<open>
  \<^verbatim>\<open>existing.dataPoints?.mergedFrom || []\<close>, spread into the new list: only
  \<^verbatim>\<open>mergeLeads\<close> writes this property, as an array.
\<close>

definition mergeLeads :: "EnhancedLead \<Rightarrow> EnhancedLead \<Rightarrow> EnhancedLead" where
  "mergeLeads existing duplicate =
     (let merged = fill_missing existing duplicate;
          merged = assign merged ''sources''
            (JArr (unique (arr_or_empty (field existing ''sources'')
                           @ arr_or_empty (field duplicate ''sources''))));
          merged = assign merged ''dataPoints''
            (JObj (assign
               (spread (props (field existing ''dataPoints''))
                       (props (field duplicate ''dataPoints'')))
               ''mergedFrom''
               (JArr (arr_or_empty (field (props (field existing ''dataPoints'')) ''mergedFrom'')
                      @ [JStr (generateLeadId duplicate)]))));
          merged = assign merged ''dataFreshnessScore''
            (JNum (max (num_or (field existing ''dataFreshnessScore'') 0)
                       (num_or (field duplicate ''dataFreshnessScore'') 0)));
          merged = assign merged ''sourceCredibility''
            (JNum (max (num_or (field existing ''sourceCredibility'') 0)
                       (num_or (field duplicate ''sourceCredibility'') 0)))
      in merged)"

subsection \<open>Deduplication\<close>




subsection \<open>The quality pass over a list of leads\<close>

















section \<open>Lead scoring (LeadScoringService)\<close>

record LeadScoringFactors =
  roleMatch :: rat
  seniorityMatch :: rat
  companyMatch :: rat
  locationMatch :: rat
  industryMatch :: rat
  linkedinActivity :: rat
  contentEngagement :: rat
  jobChangeLikelihood :: rat
  buyingSignals :: rat
  painPointAlignment :: rat
  dataCompleteness :: rat
  dataFreshness :: rat
  sourceCredibility :: rat
  emailVerification :: rat
  companyGrowth :: rat
  technologyFit :: rat
  fundingStage :: rat
  competitorAnalysis :: rat
  networkQuality :: rat
  thoughtLeadership :: rat
  mutualConnections :: rat
  socialValidation :: rat

datatype Tier = Tier_A_plus | Tier_A | Tier_B_plus | Tier_B | Tier_C_plus | Tier_C | Tier_D

datatype Priority = High | Medium | Low

text \<open>
  \<^verbatim>\<open>LeadScore\<close>. The explanation sentence is left out; the recommendations and next
  actions are lists of fixed sentences.
\<close>

record LeadScore =
  overallScore :: rat
  confidence :: rat
  tier :: Tier
  scorePriority :: Priority
  factors :: LeadScoringFactors
  scoreRecommendations :: "string list"
  nextBestActions :: "string list"

record ScoringWeights =
  demographic :: rat
  behavioral :: rat
  dataQuality :: rat
  companyIntel :: rat
  socialProof :: rat

definition SCORING_WEIGHTS :: ScoringWeights where
  "SCORING_WEIGHTS =
     \<lparr> demographic = 25 / 100,
       behavioral = 30 / 100,
       dataQuality = 15 / 100,
       companyIntel = 20 / 100,
       socialProof = 10 / 100 \<rparr>"

definition assignTier :: "rat \<Rightarrow> Tier" where
  "assignTier score =
     (if score \<ge> 90 then Tier_A_plus
      else if score \<ge> 80 then Tier_A
      else if score \<ge> 70 then Tier_B_plus
      else if score \<ge> 60 then Tier_B
      else if score \<ge> 50 then Tier_C_plus
      else if score \<ge> 40 then Tier_C
      else Tier_D)"

definition assignPriority :: "rat \<Rightarrow> rat \<Rightarrow> Priority" where
  "assignPriority score behavioralScore =
     (if score \<ge> 75 \<and> behavioralScore \<ge> 70 then High
      else if score \<ge> 60 then Medium
      else Low)"

definition generateRecommendations :: "LeadScoringFactors \<Rightarrow> rat \<Rightarrow> string list" where
  "generateRecommendations fs score =
     (if emailVerification fs < 70 then [''Verify email address before outreach''] else [])
     @ (if linkedinActivity fs > 70
        then [''Engage with LinkedIn content before connecting''] else [])
     @ (if jobChangeLikelihood fs > 60
        then [''Time-sensitive opportunity - prioritize outreach''] else [])
     @ (if buyingSignals fs > 60
        then [''Strong buying signals - focus on solution benefits''] else [])
     @ (if thoughtLeadership fs > 70
        then [''Reference their thought leadership in outreach''] else [])"

definition generateNextBestActions :: "LeadScoringFactors \<Rightarrow> rat \<Rightarrow> string list" where
  "generateNextBestActions fs score =
     (if score \<ge> 80
      then [''Send personalized LinkedIn connection request'',
            ''Schedule immediate follow-up sequence'']
      else if score \<ge> 60
      then [''Add to nurture sequence'', ''Monitor for trigger events'']
      else [''Add to long-term nurture campaign'', ''Revisit in 90 days''])"

definition calculateCompositeScore :: "LeadScoringFactors \<Rightarrow> LeadScore" where
  "calculateCompositeScore fs =
     (let demographicScore =
            (roleMatch fs + seniorityMatch fs + companyMatch fs + locationMatch fs
             + industryMatch fs) / 5;
          behavioralScore =
            (linkedinActivity fs + contentEngagement fs + jobChangeLikelihood fs
             + buyingSignals fs + painPointAlignment fs) / 5;
          dataQualityScore =
            (dataCompleteness fs + dataFreshness fs + sourceCredibility fs
             + emailVerification fs) / 4;
          companyIntelScore =
            (companyGrowth fs + technologyFit fs + fundingStage fs + competitorAnalysis fs) / 4;
          socialProofScore =
            (networkQuality fs + thoughtLeadership fs + mutualConnections fs
             + socialValidation fs) / 4;
          score = of_int (js_round
            (demographicScore * demographic SCORING_WEIGHTS
             + behavioralScore * behavioral SCORING_WEIGHTS
             + dataQualityScore * dataQuality SCORING_WEIGHTS
             + companyIntelScore * companyIntel SCORING_WEIGHTS
             + socialProofScore * socialProof SCORING_WEIGHTS));
          conf = min 100 (of_int (js_round
            ((dataCompleteness fs + sourceCredibility fs) / 2 * (12 / 10))))
      in \<lparr> overallScore = score,
           confidence = conf,
           tier = assignTier score,
           scorePriority = assignPriority score behavioralScore,
           factors = fs,
           scoreRecommendations = generateRecommendations fs score,
           nextBestActions = generateNextBestActions fs score \<rparr>)"

text \<open>Every factor of a record lies in 0..100, as the interface documents them.\<close>

definition factors_in_range :: "LeadScoringFactors \<Rightarrow> bool" where
  "factors_in_range fs =
     list_all (\<lambda>x. 0 \<le> x \<and> x \<le> 100)
       [roleMatch fs, seniorityMatch fs, companyMatch fs, locationMatch fs, industryMatch fs,
        linkedinActivity fs, contentEngagement fs, jobChangeLikelihood fs, buyingSignals fs,
        painPointAlignment fs, dataCompleteness fs, dataFreshness fs, sourceCredibility fs,
        emailVerification fs, companyGrowth fs, technologyFit fs, fundingStage fs,
        competitorAnalysis fs, networkQuality fs, thoughtLeadership fs, mutualConnections fs,
        socialValidation fs]"

section \<open>Basic facts about objects and sorting\<close>

lemma field_assign: "field (assign ob k v) k' = (if k' = k then v else field ob k')"
  by (induction ob) (auto simp: field_def)

lemma set_insert_by: "set (insert_by cmp x ys) = insert x (set ys)"
  by (induction ys) auto

lemma set_js_sort_aux:
  "set (foldl (\<lambda>acc x. insert_by cmp x acc) acc xs) = set acc \<union> set xs"
  by (induction xs arbitrary: acc) (auto simp: set_insert_by)

lemma set_js_sort: "set (js_sort cmp xs) = set xs"
  by (simp add: js_sort_def set_js_sort_aux)

lemma collect_concat:
  "collect acc rs = acc @ concat (map (\<lambda>r. case r of Fulfilled v \<Rightarrow> v | Rejected e \<Rightarrow> []) rs)"
  by (induction acc rs rule: collect.induct) auto




section \<open>Discovery isolates the failure of a source\<close>

text \<open>
  Claim C9. Whatever the outcome of each adapter's search (a list of candidates or an
  error), discovery does not reject: it returns the candidates of the enabled adapters
  whose search succeeded, concatenated in the order LinkedIn, Apollo, ZoomInfo; an adapter
  whose search failed contributes nothing.
\<close>

theorem discovery_isolates_source_failures:
  "discoverLeadsFromMultipleSources cfg res =
     Inr (concat (map (\<lambda>(on, r). case r of Fulfilled v \<Rightarrow> (if on then v else [])
                                         | Rejected e \<Rightarrow> [])
            [(enabled (linkedin (sources cfg)), linkedinResult res),
             (enabled (apollo (sources cfg)), apolloResult res),
             (enabled (zoominfo (sources cfg)), zoominfoResult res)]))"
  by (simp add: discoverLeadsFromMultipleSources_def discoveryTasks_def collect_concat
           split: settled.splits)

section \<open>A lead whose scoring call failed does not pass the default filter\<close>



section \<open>The final list: filtered, capped, and ordered by the prioritization\<close>











section \<open>The combined verification status\<close>









section \<open>A lead without an address and without a valid candidate\<close>

lemma findBestEmail_Nil: "findBestEmail [] = None"
  by (simp add: findBestEmail_def js_sort_def)

lemma str_of_not_truthy: "\<not> truthy v \<Longrightarrow> str_of v = None"
  by (cases v) auto

text \<open>
  Claim C8, as the code has it. For a lead with no address for which no generated candidate
  verifies as valid, the verification result is the fixed "No email found" result: status
  invalid, score 0, not valid. The verification stage keeps the lead, in its place, marked
  as not verified with deliverability score 0, and the scoring factor for email
  verification falls back to 60.
\<close>

theorem no_email_no_candidate_is_invalid_and_retained:
  assumes "\<not> truthy (field lead ''email'')"
    and "generatePotentialEmails pf env lead = []"
  shows "verificationStatus (fst (verifyContact pf env lead)) = Invalid
       \<and> deliverabilityScore (fst (verifyContact pf env lead)) = 0
       \<and> \<not> isValid (fst (verifyContact pf env lead))
       \<and> snd (verifyContact pf env lead) = lead
       \<and> length (verifyContactInformation pf env (before @ lead # after))
           = length (before @ lead # after)
       \<and> verifyContactInformation pf env (before @ lead # after) ! length before
           = verificationTask pf env lead
       \<and> field (verificationTask pf env lead) ''emailVerified'' = JBool False
       \<and> field (verificationTask pf env lead) ''emailDeliverabilityScore'' = JNum 0
       \<and> emailVerificationFactor (verificationTask pf env lead) = 60"
proof -
  have vc: "verifyContact pf env lead = (noEmailFound, lead)"
    using assms by (simp add: verifyContact_def str_of_not_truthy findBestEmail_Nil)
  have vt: "verificationTask pf env lead =
      assign (assign (assign lead ''emailVerified'' (JBool False))
        ''emailDeliverabilityScore'' (JNum 0)) ''phoneNumber'' JUndefined"
    by (simp add: verificationTask_def vc noEmailFound_def)
  have nth: "verifyContactInformation pf env (before @ lead # after) ! length before
      = verificationTask pf env lead"
    by (simp add: verifyContactInformation_def nth_append)
  show ?thesis
    unfolding nth unfolding vc vt
    by (simp add: noEmailFound_def verifyContactInformation_def field_assign
        emailVerificationFactor_def)
qed

theorem no_email_no_candidate_is_invalid_and_retained_witness:
  "verificationStatus (fst (verifyContact no_url_platform unresolvable_env
      [(''firstName'', JStr ''Ada''), (''lastName'', JStr ''Byron''),
       (''companyName'', JStr ''Nowhere Labs'')])) = Invalid
   \<and> emailVerificationFactor (verificationTask no_url_platform unresolvable_env
      [(''firstName'', JStr ''Ada''), (''lastName'', JStr ''Byron''),
       (''companyName'', JStr ''Nowhere Labs'')]) = 60"
proof -
  let ?lead = "[(''firstName'', JStr ''Ada''), (''lastName'', JStr ''Byron''),
       (''companyName'', JStr ''Nowhere Labs'')]"
  have e: "\<not> truthy (field ?lead ''email'')"
    by (simp add: field_def)
  have g: "generatePotentialEmails no_url_platform unresolvable_env ?lead = []"
    by (simp add: generatePotentialEmails_def field_def guessDomainFromCompany_def
      verifyAddress_def combineVerificationResults_def overallValidity_def opt_field_def
      unresolvable_env_def emptyPartial_def emailPatterns_def Let_def)
  from no_email_no_candidate_is_invalid_and_retained [OF e g]
  show ?thesis by blast
qed

text \<open>
  The claim as stated fails on the status: a lead named Ada Byron at Nowhere Labs, whose
  seven candidate addresses all fail the DNS lookup, gets a status other than unknown.
\<close>

theorem no_email_status_is_not_unknown_counterexample:
  "\<not> truthy (field [(''firstName'', JStr ''Ada''), (''lastName'', JStr ''Byron''),
       (''companyName'', JStr ''Nowhere Labs'')] ''email'')
   \<and> generatePotentialEmails no_url_platform unresolvable_env
      [(''firstName'', JStr ''Ada''), (''lastName'', JStr ''Byron''),
       (''companyName'', JStr ''Nowhere Labs'')] = []
   \<and> verificationStatus (fst (verifyContact no_url_platform unresolvable_env
      [(''firstName'', JStr ''Ada''), (''lastName'', JStr ''Byron''),
       (''companyName'', JStr ''Nowhere Labs'')])) \<noteq> Unknown"
  by (simp add: verifyContact_def findBestEmail_def js_sort_def noEmailFound_def
      generatePotentialEmails_def field_def guessDomainFromCompany_def
      verifyAddress_def combineVerificationResults_def overallValidity_def opt_field_def
      unresolvable_env_def emptyPartial_def emailPatterns_def Let_def)

section \<open>The accuracy score\<close>

lemma sub_unless:
  "(case x of Some e \<Rightarrow> if \<not> P e then a - d else a | None \<Rightarrow> a)
     = a - (case x of Some e \<Rightarrow> if P e then 0 else d | None \<Rightarrow> 0)"
  for a d :: rat
  by (simp split: option.split)

lemma sub_when:
  "(case x of Some e \<Rightarrow> if P e then a - d else a | None \<Rightarrow> a)
     = a - (case x of Some e \<Rightarrow> if P e then d else 0 | None \<Rightarrow> 0)"
  for a d :: rat
  by (simp split: option.split)

lemma sub_unparsed:
  "(case x of Some w \<Rightarrow> (case h w of Some y \<Rightarrow> a | None \<Rightarrow> a - d) | None \<Rightarrow> a)
     = a - (case x of Some w \<Rightarrow> if h w = None then d else 0 | None \<Rightarrow> 0)"
  for a d :: rat
  by (simp split: option.split)

lemma list_ex_fakeCompanyPatterns:
  "list_ex (\<lambda>pattern. js_includes (toLowerCase c) pattern) fakeCompanyPatterns
     = has_placeholder_token c"
  by (simp add: fakeCompanyPatterns_def has_placeholder_token_def)

lemma assessDataAccuracy_reference: "assessDataAccuracy pf lead = accuracy_reference pf lead"
  unfolding assessDataAccuracy_def accuracy_reference_def Let_def
    penalty_email_def penalty_profile_url_def penalty_website_def penalty_short_name_def
    penalty_placeholder_def penalty_phone_def list_ex_fakeCompanyPatterns
    sub_unless sub_when sub_unparsed
  by (rule refl)

lemma test_corp_has_placeholder_token: "has_placeholder_token ''Test Corp''"
  by (simp add: has_placeholder_token_def toLowerCase_def lower_char_def startsWith_def)


text \<open>
  Claim C4. For every lead the accuracy computed by \<^verbatim>\<open>assessDataAccuracy\<close> is the
  reference value: 80, less 20 for a present email that fails the email pattern, 10 for a
  present profile URL that fails the LinkedIn pattern, 10 for a present website that does
  not parse, 15 for each of first and last name that is present with fewer than two
  characters, 30 for a company name that contains a placeholder token in any case, 10 for
  a present phone number that fails the phone pattern, clamped to 0..100. A company named
  Test Corp always has the penalty 30; alone in a lead it gives accuracy 50.
\<close>

theorem accuracy_is_80_minus_penalties_clamped:
  "assessDataAccuracy pf lead = accuracy_reference pf lead
   \<and> penalty_placeholder (assign lead ''companyName'' (JStr ''Test Corp'')) = 30
   \<and> assessDataAccuracy pf [(''companyName'', JStr ''Test Corp'')] = 50"
proof -
  have p: "penalty_placeholder (assign lead ''companyName'' (JStr ''Test Corp'')) = 30"
    by (simp add: penalty_placeholder_def field_assign test_corp_has_placeholder_token)
  have "accuracy_reference pf [(''companyName'', JStr ''Test Corp'')] = 50"
    by (simp add: accuracy_reference_def penalty_email_def penalty_profile_url_def
        penalty_website_def penalty_short_name_def penalty_placeholder_def penalty_phone_def
        field_def test_corp_has_placeholder_token)
  then have "assessDataAccuracy pf [(''companyName'', JStr ''Test Corp'')] = 50"
    by (simp add: assessDataAccuracy_reference)
  with p assessDataAccuracy_reference show ?thesis by blast
qed

section \<open>The range of the quality and composite scores\<close>

lemma js_round_nonneg: "0 \<le> x \<Longrightarrow> 0 \<le> js_round x"
  by (simp add: js_round_def)

lemma js_round_le: "x \<le> of_int n \<Longrightarrow> js_round x \<le> n"
  unfolding js_round_def by (simp add: floor_le_iff)

lemma js_round_range: "0 \<le> x \<Longrightarrow> x \<le> 100 \<Longrightarrow> 0 \<le> js_round x \<and> js_round x \<le> 100"
  using js_round_nonneg [of x] js_round_le [of x 100] by simp

lemma rat_round_range:
  "0 \<le> x \<Longrightarrow> x \<le> 100 \<Longrightarrow>
     (0::rat) \<le> of_int (js_round x) \<and> (of_int (js_round x) :: rat) \<le> 100"
proof -
  assume "0 \<le> x" and "x \<le> 100"
  then have r: "0 \<le> js_round x \<and> js_round x \<le> 100" by (rule js_round_range)
  then have "(of_int 0 :: rat) \<le> of_int (js_round x)
      \<and> (of_int (js_round x) :: rat) \<le> of_int 100"
    by (simp only: of_int_le_iff)
  then show ?thesis by simp
qed

lemma mean5_range:
  fixes a b c d e :: rat
  assumes "0 \<le> a \<and> a \<le> 100" "0 \<le> b \<and> b \<le> 100" "0 \<le> c \<and> c \<le> 100"
    "0 \<le> d \<and> d \<le> 100" "0 \<le> e \<and> e \<le> 100"
  shows "0 \<le> (a + b + c + d + e) / 5 \<and> (a + b + c + d + e) / 5 \<le> 100"
  using assms by simp

lemma mean4_range:
  fixes a b c d :: rat
  assumes "0 \<le> a \<and> a \<le> 100" "0 \<le> b \<and> b \<le> 100" "0 \<le> c \<and> c \<le> 100"
    "0 \<le> d \<and> d \<le> 100"
  shows "0 \<le> (a + b + c + d) / 4 \<and> (a + b + c + d) / 4 \<le> 100"
  using assms by simp

lemma weighted5_range:
  fixes p q r s t :: rat
  assumes "0 \<le> p \<and> p \<le> 100" "0 \<le> q \<and> q \<le> 100" "0 \<le> r \<and> r \<le> 100"
    "0 \<le> s \<and> s \<le> 100" "0 \<le> t \<and> t \<le> 100"
  shows "0 \<le> p * (25 / 100) + q * (30 / 100) + r * (15 / 100) + s * (20 / 100) + t * (10 / 100)
       \<and> p * (25 / 100) + q * (30 / 100) + r * (15 / 100) + s * (20 / 100) + t * (10 / 100)
           \<le> 100"
  using assms by simp

lemma composite_in_range:
  assumes "factors_in_range fs"
  shows "0 \<le> overallScore (calculateCompositeScore fs)
       \<and> overallScore (calculateCompositeScore fs) \<le> 100
       \<and> 0 \<le> confidence (calculateCompositeScore fs)
       \<and> confidence (calculateCompositeScore fs) \<le> 100"
proof -
  let ?d = "(roleMatch fs + seniorityMatch fs + companyMatch fs + locationMatch fs
             + industryMatch fs) / 5"
  let ?b = "(linkedinActivity fs + contentEngagement fs + jobChangeLikelihood fs
             + buyingSignals fs + painPointAlignment fs) / 5"
  let ?q = "(dataCompleteness fs + dataFreshness fs + sourceCredibility fs
             + emailVerification fs) / 4"
  let ?i = "(companyGrowth fs + technologyFit fs + fundingStage fs + competitorAnalysis fs) / 4"
  let ?s = "(networkQuality fs + thoughtLeadership fs + mutualConnections fs
             + socialValidation fs) / 4"
  let ?w = "?d * (25 / 100) + ?b * (30 / 100) + ?q * (15 / 100) + ?i * (20 / 100)
            + ?s * (10 / 100)"
  let ?c = "(dataCompleteness fs + sourceCredibility fs) / 2 * (12 / 10)"
  note fr = assms [unfolded factors_in_range_def list.pred_inject]
  have d: "0 \<le> ?d \<and> ?d \<le> 100" by (rule mean5_range) (use fr in blast)+
  have b: "0 \<le> ?b \<and> ?b \<le> 100" by (rule mean5_range) (use fr in blast)+
  have q: "0 \<le> ?q \<and> ?q \<le> 100" by (rule mean4_range) (use fr in blast)+
  have i: "0 \<le> ?i \<and> ?i \<le> 100" by (rule mean4_range) (use fr in blast)+
  have s: "0 \<le> ?s \<and> ?s \<le> 100" by (rule mean4_range) (use fr in blast)+
  have w: "0 \<le> ?w \<and> ?w \<le> 100"
    using d b q i s by (rule weighted5_range)
  have "0 \<le> dataCompleteness fs + sourceCredibility fs" using fr by simp
  then have c: "0 \<le> ?c" by simp
  have os: "overallScore (calculateCompositeScore fs) = of_int (js_round ?w)"
    by (simp add: calculateCompositeScore_def SCORING_WEIGHTS_def Let_def)
  have k: "confidence (calculateCompositeScore fs) = min 100 (of_int (js_round ?c))"
    by (simp add: calculateCompositeScore_def Let_def)
  have "0 \<le> js_round ?c" using c by (rule js_round_nonneg)
  then have c': "(0::rat) \<le> of_int (js_round ?c)" by simp
  have w': "(0::rat) \<le> of_int (js_round ?w) \<and> (of_int (js_round ?w) :: rat) \<le> 100"
    using w by (intro rat_round_range) simp_all
  show ?thesis
    unfolding os k using w' c' by simp
qed

lemma clamp_range: "0 \<le> max 0 (min 100 x) \<and> max 0 (min 100 x) \<le> (100::rat)"
  by simp

lemma assessDataAccuracy_range:
  "0 \<le> assessDataAccuracy pf lead \<and> assessDataAccuracy pf lead \<le> 100"
  unfolding assessDataAccuracy_reference accuracy_reference_def by (rule clamp_range)

lemma calculateFreshness_range:
  "0 \<le> calculateFreshness pf lead \<and> calculateFreshness pf lead \<le> 100"
  by (simp add: calculateFreshness_def Let_def)

lemma calculateConsistency_range:
  assumes "calculateConsistency pf lead = Inr c"
  shows "0 \<le> c \<and> c \<le> 100"
  using assms unfolding calculateConsistency_def Let_def
  by (auto split: option.splits sum.splits if_splits prod.splits)

lemma foldl_weights_nonneg:
  "0 \<le> z \<Longrightarrow> 0 \<le> foldl (\<lambda>sum source. sum + source_weight source) z srcs"
proof (induction srcs arbitrary: z)
  case Nil
  then show ?case by simp
next
  case (Cons s srcs)
  have "0 \<le> source_weight s"
    by (auto simp: source_weight_def sourceReliability_def split: jsval.splits option.splits if_splits)
  with Cons.prems have "0 \<le> z + source_weight s" by simp
  then show ?case using Cons.IH by simp
qed

lemma calculateReliability_range:
  "0 \<le> calculateReliability srcs \<and> calculateReliability srcs \<le> 100"
proof (cases "length srcs = 0")
  case True
  then show ?thesis by (simp add: calculateReliability_def)
next
  case False
  let ?avg = "foldl (\<lambda>sum source. sum + source_weight source) 0 srcs / of_nat (length srcs)"
  let ?bonus = "min (of_nat (length srcs) * 5) (15::rat)"
  have "0 \<le> foldl (\<lambda>sum source. sum + source_weight source) 0 srcs"
    by (rule foldl_weights_nonneg) simp
  then have "0 \<le> ?avg" by simp
  moreover have "0 \<le> ?bonus" by simp
  ultimately have "0 \<le> ?avg + ?bonus" by simp
  then have "0 \<le> js_round (?avg + ?bonus)" by (rule js_round_nonneg)
  then have "(0::rat) \<le> of_int (js_round (?avg + ?bonus))" by simp
  then show ?thesis using False by (simp add: calculateReliability_def Let_def)
qed

lemma completeness_range:
  fixes r o' :: nat
  assumes "r \<le> 5" and "o' \<le> 7"
  shows "0 \<le> (of_nat r / of_nat (5::nat) * 70 + of_nat o' / of_nat (7::nat) * 30 :: rat)
       \<and> (of_nat r / of_nat (5::nat) * 70 + of_nat o' / of_nat (7::nat) * 30 :: rat) \<le> 100"
proof -
  have r: "(of_nat r :: rat) \<le> 5" using assms(1) by (metis of_nat_le_iff of_nat_numeral)
  have o: "(of_nat o' :: rat) \<le> 7" using assms(2) by (metis of_nat_le_iff of_nat_numeral)
  have r0: "(0::rat) \<le> of_nat r" and o0: "(0::rat) \<le> of_nat o'" by simp_all
  show ?thesis using r o r0 o0 by simp
qed

lemma weighted_quality_range:
  fixes p q r s t :: rat
  assumes "0 \<le> p \<and> p \<le> 100" "0 \<le> q \<and> q \<le> 100" "0 \<le> r \<and> r \<le> 100"
    "0 \<le> s \<and> s \<le> 100" "0 \<le> t \<and> t \<le> 100"
  shows "0 \<le> p * (3 / 10) + q * (25 / 100) + r * (2 / 10) + s * (15 / 100) + t * (1 / 10)
       \<and> p * (3 / 10) + q * (25 / 100) + r * (2 / 10) + s * (15 / 100) + t * (1 / 10) \<le> 100"
  using assms by simp

lemma quality_in_range:
  assumes m: "calculateQualityMetrics pf lead = Inr m"
    and lo: "0 \<le> num_or (field lead ''dataFreshnessScore'') 0"
    and hi: "num_or (field lead ''dataFreshnessScore'') 0 \<le> 100"
  shows "0 \<le> overallQuality m \<and> overallQuality m \<le> 100"
proof -
  let ?cr = "length (filter (\<lambda>f. isFieldComplete (field lead f)) requiredFields)"
  let ?co = "length (filter (\<lambda>f. isFieldComplete (field lead f)) optionalFields)"
  let ?comp = "of_int (js_round (of_nat ?cr / of_nat (length requiredFields) * 70
               + of_nat ?co / of_nat (length optionalFields) * 30)) :: rat"
  let ?fresh = "(case field lead ''dataFreshnessScore'' of
               JNum n \<Rightarrow> if n = 0 then calculateFreshness pf lead else n
             | _ \<Rightarrow> calculateFreshness pf lead)"
  obtain c where c: "calculateConsistency pf lead = Inr c"
    using m unfolding calculateQualityMetrics_def Let_def by (auto split: sum.splits)
  have ov: "overallQuality m = of_int (js_round
      (?comp * (3 / 10) + assessDataAccuracy pf lead * (25 / 100) + ?fresh * (2 / 10)
       + c * (15 / 100)
       + calculateReliability (arr_or_empty (field lead ''sources'')) * (1 / 10)))"
    using m unfolding calculateQualityMetrics_def Let_def c by auto
  have "?cr \<le> length requiredFields" by (rule length_filter_le)
  then have cr: "?cr \<le> 5" by (simp add: requiredFields_def)
  have "?co \<le> length optionalFields" by (rule length_filter_le)
  then have co: "?co \<le> 7" by (simp add: optionalFields_def)
  have l5: "length requiredFields = 5" by (simp add: requiredFields_def)
  have l7: "length optionalFields = 7" by (simp add: optionalFields_def)
  have comp: "0 \<le> ?comp \<and> ?comp \<le> 100"
    unfolding l5 l7 using completeness_range [OF cr co] by (intro rat_round_range) simp_all
  have fresh: "0 \<le> ?fresh \<and> ?fresh \<le> 100"
    using lo hi calculateFreshness_range [of pf lead]
    by (cases "field lead ''dataFreshnessScore''") auto
  have cons: "0 \<le> c \<and> c \<le> 100" using c by (rule calculateConsistency_range)
  have "0 \<le> ?comp * (3 / 10) + assessDataAccuracy pf lead * (25 / 100) + ?fresh * (2 / 10)
       + c * (15 / 100)
       + calculateReliability (arr_or_empty (field lead ''sources'')) * (1 / 10)
     \<and> ?comp * (3 / 10) + assessDataAccuracy pf lead * (25 / 100) + ?fresh * (2 / 10)
       + c * (15 / 100)
       + calculateReliability (arr_or_empty (field lead ''sources'')) * (1 / 10) \<le> 100"
    using comp assessDataAccuracy_range fresh cons calculateReliability_range
    by (rule weighted_quality_range)
  then show ?thesis unfolding ov by (intro rat_round_range) simp_all
qed

text \<open>
  Claim C5 at a lead that carries its own freshness score. \<^verbatim>\<open>calculateQualityMetrics\<close>
  takes \<^verbatim>\<open>lead.dataFreshnessScore\<close> as the freshness without clamping it, so for a
  lead with the score 1000 the freshness is 1000 and the overall quality is 244, outside
  0..100. The two lemmas above give the range where it holds: the composite score and the
  confidence for factors in 0..100, and the overall quality for a lead whose own freshness
  score is absent or in 0..100.
\<close>

theorem overall_quality_exceeds_100_for_unclamped_freshness:
  "map_sum id overallQuality
     (calculateQualityMetrics no_url_platform
        [(''firstName'', JStr ''Ada''), (''dataFreshnessScore'', JNum 1000)]) = Inr 244"
  by code_simp

section \<open>Merging two leads\<close>

lemma field_undefined_iff: "k \<notin> fst ` set ob \<Longrightarrow> field ob k = JUndefined"
  by (simp add: field_def map_of_eq_None_iff [THEN iffD2])

lemma field_fill_aux:
  "field (foldl (\<lambda>merged key.
              if \<not> isFieldComplete (field existing key) \<and> isFieldComplete (field duplicate key)
              then assign merged key (field duplicate key) else merged) m ks) k
     = (if k \<in> set ks \<and> \<not> isFieldComplete (field existing k)
            \<and> isFieldComplete (field duplicate k)
        then field duplicate k else field m k)"
  by (induction ks arbitrary: m) (auto simp: field_assign)

lemma field_fill_missing:
  "field (fill_missing existing duplicate) k
     = (if \<not> isFieldComplete (field existing k) \<and> isFieldComplete (field duplicate k)
        then field duplicate k else field existing k)"
proof (cases "k \<in> fst ` set duplicate")
  case True
  then show ?thesis by (simp add: fill_missing_def field_fill_aux)
next
  case False
  then have "field duplicate k = JUndefined" by (rule field_undefined_iff)
  then show ?thesis by (simp add: fill_missing_def field_fill_aux)
qed

lemma set_unique_aux:
  "set (foldl (\<lambda>acc x. if x \<in> set acc then acc else acc @ [x]) acc xs) = set acc \<union> set xs"
  by (induction xs arbitrary: acc) auto

lemma set_unique: "set (unique xs) = set xs"
  by (simp add: unique_def set_unique_aux)

lemma distinct_unique_aux:
  "distinct acc \<Longrightarrow>
     distinct (foldl (\<lambda>acc x. if x \<in> set acc then acc else acc @ [x]) acc xs)"
  by (induction xs arbitrary: acc) auto

lemma distinct_unique: "distinct (unique xs)"
  by (simp add: unique_def distinct_unique_aux)

lemma field_mergeLeads_other:
  assumes "k \<notin> {''sources'', ''dataPoints'', ''dataFreshnessScore'', ''sourceCredibility''}"
  shows "field (mergeLeads existing duplicate) k = field (fill_missing existing duplicate) k"
  using assms by (simp add: mergeLeads_def Let_def field_assign)

lemma field_mergeLeads_sources:
  "field (mergeLeads existing duplicate) ''sources''
     = JArr (unique (arr_or_empty (field existing ''sources'')
                     @ arr_or_empty (field duplicate ''sources'')))"
  by (simp add: mergeLeads_def Let_def field_assign)

lemma field_mergeLeads_dataFreshnessScore:
  "field (mergeLeads existing duplicate) ''dataFreshnessScore''
     = JNum (max (num_or (field existing ''dataFreshnessScore'') 0)
                 (num_or (field duplicate ''dataFreshnessScore'') 0))"
  by (simp add: mergeLeads_def Let_def field_assign)

lemma field_mergeLeads_sourceCredibility:
  "field (mergeLeads existing duplicate) ''sourceCredibility''
     = JNum (max (num_or (field existing ''sourceCredibility'') 0)
                 (num_or (field duplicate ''sourceCredibility'') 0))"
  by (simp add: mergeLeads_def Let_def field_assign)

lemma field_mergeLeads_dataPoints:
  "field (mergeLeads existing duplicate) ''dataPoints''
     = JObj (assign
               (spread (props (field existing ''dataPoints''))
                       (props (field duplicate ''dataPoints'')))
               ''mergedFrom''
               (JArr (arr_or_empty (field (props (field existing ''dataPoints'')) ''mergedFrom'')
                      @ [JStr (generateLeadId duplicate)])))"
  by (simp add: mergeLeads_def Let_def field_assign)

text \<open>
  Claim C3, as the code has it. In the record returned by \<^verbatim>\<open>mergeLeads\<close>, every
  property other than \<^verbatim>\<open>sources\<close>, \<^verbatim>\<open>dataPoints\<close>, \<^verbatim>\<open>dataFreshnessScore\<close> and
  \<^verbatim>\<open>sourceCredibility\<close> has the value of \<open>existing\<close>, unless that is not complete
  and the value of \<open>duplicate\<close> is, which is then taken; so a populated property of
  \<open>existing\<close> keeps its value. The sources are the union of both lists without
  repetition, the two scores are the maximum of both (a missing score counting as 0), and
  the lineage list \<^verbatim>\<open>dataPoints.mergedFrom\<close> gains the identifier of \<open>duplicate\<close>.
\<close>

theorem merge_keeps_populated_fields_outside_the_merged_ones:
  "(\<forall>k. k \<notin> {''sources'', ''dataPoints'', ''dataFreshnessScore'', ''sourceCredibility''} \<longrightarrow>
       field (mergeLeads existing duplicate) k
         = (if \<not> isFieldComplete (field existing k) \<and> isFieldComplete (field duplicate k)
            then field duplicate k else field existing k))
   \<and> field (mergeLeads existing duplicate) ''sources''
       = JArr (unique (arr_or_empty (field existing ''sources'')
                       @ arr_or_empty (field duplicate ''sources'')))
   \<and> set (arr_or_empty (field (mergeLeads existing duplicate) ''sources''))
       = set (arr_or_empty (field existing ''sources''))
         \<union> set (arr_or_empty (field duplicate ''sources''))
   \<and> distinct (arr_or_empty (field (mergeLeads existing duplicate) ''sources''))
   \<and> field (mergeLeads existing duplicate) ''dataFreshnessScore''
       = JNum (max (num_or (field existing ''dataFreshnessScore'') 0)
                   (num_or (field duplicate ''dataFreshnessScore'') 0))
   \<and> field (mergeLeads existing duplicate) ''sourceCredibility''
       = JNum (max (num_or (field existing ''sourceCredibility'') 0)
                   (num_or (field duplicate ''sourceCredibility'') 0))
   \<and> field (props (field (mergeLeads existing duplicate) ''dataPoints'')) ''mergedFrom''
       = JArr (arr_or_empty (field (props (field existing ''dataPoints'')) ''mergedFrom'')
               @ [JStr (generateLeadId duplicate)])"
proof -
  have other: "\<forall>k. k \<notin> {''sources'', ''dataPoints'', ''dataFreshnessScore'',
        ''sourceCredibility''} \<longrightarrow>
       field (mergeLeads existing duplicate) k
         = (if \<not> isFieldComplete (field existing k) \<and> isFieldComplete (field duplicate k)
            then field duplicate k else field existing k)"
    using field_mergeLeads_other [of _ existing duplicate]
    by (simp only: field_fill_missing) blast
  have lineage: "field (props (field (mergeLeads existing duplicate) ''dataPoints''))
      ''mergedFrom''
       = JArr (arr_or_empty (field (props (field existing ''dataPoints'')) ''mergedFrom'')
               @ [JStr (generateLeadId duplicate)])"
    by (simp add: field_mergeLeads_dataPoints field_assign)
  show ?thesis
    using other lineage
    by (simp add: field_mergeLeads_sources field_mergeLeads_dataFreshnessScore
        field_mergeLeads_sourceCredibility set_unique distinct_unique)
qed

theorem merge_keeps_populated_fields_outside_the_merged_ones_witness:
  "field (mergeLeads
       [(''firstName'', JStr ''Ada''), (''email'', JStr ''''), (''role'', JStr ''CEO'')]
       [(''firstName'', JStr ''Bob''), (''email'', JStr ''ada@acme.io''),
        (''role'', JStr ''CTO'')]) ''role'' = JStr ''CEO''
   \<and> field (mergeLeads
       [(''firstName'', JStr ''Ada''), (''email'', JStr ''''), (''role'', JStr ''CEO'')]
       [(''firstName'', JStr ''Bob''), (''email'', JStr ''ada@acme.io''),
        (''role'', JStr ''CTO'')]) ''email'' = JStr ''ada@acme.io''"
proof -
  let ?e = "[(''firstName'', JStr ''Ada''), (''email'', JStr ''''), (''role'', JStr ''CEO'')]"
  let ?d = "[(''firstName'', JStr ''Bob''), (''email'', JStr ''ada@acme.io''),
        (''role'', JStr ''CTO'')]"
  have k1: "''role'' \<notin> {''sources'', ''dataPoints'', ''dataFreshnessScore'',
      ''sourceCredibility''}" by simp
  have k2: "''email'' \<notin> {''sources'', ''dataPoints'', ''dataFreshnessScore'',
      ''sourceCredibility''}" by simp
  have r: "isFieldComplete (field ?e ''role'')"
    by (simp add: field_def trim_def is_space_def)
  have e1: "\<not> isFieldComplete (field ?e ''email'')"
    by (simp add: field_def trim_def)
  have e2: "isFieldComplete (field ?d ''email'')"
    by (simp add: field_def trim_def is_space_def)
  have fr: "field ?e ''role'' = JStr ''CEO''" by (simp add: field_def)
  have fe: "field ?d ''email'' = JStr ''ada@acme.io''" by (simp add: field_def)
  from merge_keeps_populated_fields_outside_the_merged_ones [of ?e ?d] k1 k2 r e1 e2 fr fe
  show ?thesis by metis
qed

text \<open>
  The claim as stated fails for the property \<^verbatim>\<open>dataPoints\<close>: populated in
  \<open>existing\<close>, it does not keep its value, and an entry that both leads have is taken
  from \<open>duplicate\<close>.
\<close>

theorem merge_changes_populated_dataPoints_counterexample:
  "isFieldComplete (field
       [(''firstName'', JStr ''Ada''), (''dataPoints'', JObj [(''location'', JStr ''Oslo'')])]
       ''dataPoints'')
   \<and> field (props (field (mergeLeads
       [(''firstName'', JStr ''Ada''), (''dataPoints'', JObj [(''location'', JStr ''Oslo'')])]
       [(''firstName'', JStr ''Ada''), (''dataPoints'', JObj [(''location'', JStr ''Rome'')])])
       ''dataPoints'')) ''location'' = JStr ''Rome''
   \<and> field (mergeLeads
       [(''firstName'', JStr ''Ada''), (''dataPoints'', JObj [(''location'', JStr ''Oslo'')])]
       [(''firstName'', JStr ''Ada''), (''dataPoints'', JObj [(''location'', JStr ''Rome'')])])
       ''dataPoints''
     \<noteq> field
       [(''firstName'', JStr ''Ada''), (''dataPoints'', JObj [(''location'', JStr ''Oslo'')])]
       ''dataPoints''"
  by code_simp

section \<open>Deduplicating two candidates\<close>




























section \<open>The order of two candidates\<close>











end
